theory Spec2Isabelle
  imports Complex_Main "HOL-Library.Word" "HOL-Library.Monad_Syntax"
begin

section \<open>The NP-3511D command encoder of osi\_printer.py\<close>

text \<open>
  Python floats are modelled by exact real arithmetic (\<^typ>\<open>real\<close>). Every distance the
  program itself computes is a small multiple of 1/8 mm, on which binary floating point is
  exact. A function that can raise returns an option, and \<^term>\<open>None\<close> is a raised exception
  that leaves the callback: the \<^verbatim>\<open>ValueError\<close> of \<^verbatim>\<open>bytes([n])\<close>, a \<^verbatim>\<open>ZeroDivisionError\<close>, or
  the \<^verbatim>\<open>BarcodeCodeError\<close> and \<^verbatim>\<open>BarcodeSizeError\<close> of the library's \<^verbatim>\<open>barcode\<close>.
\<close>

type_synonym byte = "8 word"

text \<open>
  The printer object is the \<^verbatim>\<open>Dummy\<close> printer of the escpos library: it keeps the list of
  the chunks handed to \<^verbatim>\<open>_raw\<close>; \<^verbatim>\<open>output\<close> is their concatenation and \<^verbatim>\<open>clear()\<close> empties the
  list. What the library calls \<^verbatim>\<open>text\<close> and \<^verbatim>\<open>barcode\<close> append is kept symbolic: one chunk
  each, carrying the arguments of the call (code, symbology, width, height, pos,
  align\_ct). \<^verbatim>\<open>text\<close> is taken to return normally.
\<close>

datatype chunk =
    Raw "byte list"
  | Text string
  | Barcode string string int int string bool

record np3511d =
  output_list :: "chunk list"

definition Np3511d :: np3511d where
  "Np3511d = \<lparr>output_list = []\<rparr>"

definition raw :: "np3511d \<Rightarrow> byte list \<Rightarrow> np3511d" where
  "raw p msg = p\<lparr>output_list := output_list p @ [Raw msg]\<rparr>"

definition text_out :: "np3511d \<Rightarrow> string \<Rightarrow> np3511d" where
  "text_out p txt = p\<lparr>output_list := output_list p @ [Text txt]\<rparr>"

text \<open>
  \<^verbatim>\<open>barcode(code, bc, ...)\<close> checks its arguments first (\<^verbatim>\<open>check=True\<close> is the default, which
  every call of the program keeps): it raises \<^verbatim>\<open>BarcodeSizeError\<close> unless the height is in
  1..255 and the width in 2..6, and \<^verbatim>\<open>BarcodeCodeError\<close> unless \<^verbatim>\<open>check_barcode(bc, code)\<close>
  holds. For CODE39, the one symbology the program uses, the code must be 1 to 255
  characters long and match \<^verbatim>\<open>^([0-9A-Z $%+-./]+|\*[0-9A-Z $%+-./]+\*)$\<close>; any other
  symbology is outside the model and rejected. (\<^verbatim>\<open>$\<close> is the end of the code here: every
  code the program passes ends in \<open>*\<close>, not in a line feed.)
\<close>

definition code39_char :: "char \<Rightarrow> bool" where
  "code39_char c = (c \<in> set ''0123456789ABCDEFGHIJKLMNOPQRSTUVWXYZ $%+-./'')"

definition check_barcode :: "string \<Rightarrow> string \<Rightarrow> bool" where
  "check_barcode bc code =
     (bc = ''CODE39'' \<and> 1 \<le> length code \<and> length code \<le> 255 \<and>
      (list_all code39_char code \<or>
       (case code of
          [] \<Rightarrow> False
        | c # cs \<Rightarrow> c = CHR ''*'' \<and> 2 \<le> length cs \<and> last cs = CHR ''*''
                     \<and> list_all code39_char (butlast cs))))"

definition barcode :: "np3511d \<Rightarrow> string \<Rightarrow> string \<Rightarrow> int \<Rightarrow> int \<Rightarrow> string \<Rightarrow> bool \<Rightarrow> np3511d option" where
  "barcode p code bc width height pos align_ct =
     (if 1 \<le> height \<and> height \<le> 255 \<and> 2 \<le> width \<and> width \<le> 6 \<and> check_barcode bc code
      then Some (p\<lparr>output_list := output_list p @ [Barcode code bc width height pos align_ct]\<rparr>)
      else None)"

definition clear :: "np3511d \<Rightarrow> np3511d" where
  "clear p = p\<lparr>output_list := []\<rparr>"

subsection \<open>Python primitives\<close>

definition py_int :: "real \<Rightarrow> int" where
  \<comment> \<open>\<^verbatim>\<open>int(x)\<close> on a float: truncation toward zero.\<close>
  "py_int x = (if x < 0 then \<lceil>x\<rceil> else \<lfloor>x\<rfloor>)"

definition py_mod :: "real \<Rightarrow> real \<Rightarrow> real" where
  \<comment> \<open>\<^verbatim>\<open>x % y\<close> on floats; the result takes the sign of the divisor. Only used with y = 31.875.\<close>
  "py_mod x y = x - of_int \<lfloor>x / y\<rfloor> * y"

definition bytes1 :: "int \<Rightarrow> byte list option" where
  \<comment> \<open>\<^verbatim>\<open>bytes([n])\<close>: ValueError unless n is in range(256).\<close>
  "bytes1 n = (if 0 \<le> n \<and> n < 256 then Some [word_of_int n] else None)"

subsection \<open>Constants\<close>

definition ESC :: byte where "ESC = 0x1b"
definition GS :: byte where "GS = 0x1d"
definition CUTTER_OFFSET :: real where "CUTTER_OFFSET = 9.5"
definition POST_CUT_ADV :: real where "POST_CUT_ADV = 2"
definition MARGIN :: int where "MARGIN = 4"
definition AJUSTE :: real where "AJUSTE = 6.0"

subsection \<open>Class Np3511d\<close>

definition set_max_print_speed :: "np3511d \<Rightarrow> int \<Rightarrow> np3511d" where
  "set_max_print_speed p speed =
     (if speed = 200 then raw p [GS, 0x53, 0x00]
      else if speed = 150 then raw p [GS, 0x53, 0x01]
      else if speed = 125 then raw p [GS, 0x53, 0x02]
      else if speed = 100 then raw p [GS, 0x53, 0x03]
      else raw p [GS, 0x53, 0x04])"

definition set_alignment :: "np3511d \<Rightarrow> string \<Rightarrow> np3511d" where
  "set_alignment p alignment =
     (if alignment = ''RIGHT'' then raw p [ESC, 0x61, 0x02]
      else if alignment = ''CENTER'' then raw p [ESC, 0x61, 0x01]
      else raw p [ESC, 0x61, 0x00])"

definition set_print_density :: "np3511d \<Rightarrow> real \<Rightarrow> np3511d option" where
  "set_print_density p density =
     (let density = (if density < 65 then 65 else if density > 130 then 130 else density)
      in do { b \<leftarrow> bytes1 (py_int density); Some (raw p ([GS, 0x7E] @ b)) })"

definition set_enhanced_print_on :: "np3511d \<Rightarrow> np3511d" where
  "set_enhanced_print_on p = raw p [ESC, 0x45, 0x01]"

definition set_double_strike_on :: "np3511d \<Rightarrow> np3511d" where
  "set_double_strike_on p = raw p [ESC, 0x47, 0x01]"

definition set_double_width_and_height :: "np3511d \<Rightarrow> np3511d" where
  "set_double_width_and_height p = raw p [ESC, 0x21, 0x38]"

definition full_cut :: "np3511d \<Rightarrow> np3511d" where
  "full_cut p = raw p [ESC, 0x69]"

definition reset :: "np3511d \<Rightarrow> np3511d" where
  "reset p = raw p [ESC, 0x40]"

definition set_lf_pitch :: "np3511d \<Rightarrow> real \<Rightarrow> np3511d option" where
  "set_lf_pitch p pitch =
     (let pitch = (if pitch < 0 then 0 else if pitch > 255 then 255 else pitch)
      in do { b \<leftarrow> bytes1 (py_int pitch); Some (raw p ([ESC, 0x33] @ b)) })"

definition set_margins :: "np3511d \<Rightarrow> real \<Rightarrow> real \<Rightarrow> np3511d option" where
  "set_margins p margen_izq ancho_impresion =
     do { a \<leftarrow> bytes1 (py_int margen_izq);
          b \<leftarrow> bytes1 (py_int ancho_impresion);
          Some (raw p ([GS, 0x57] @ a @ b)) }"

text \<open>
  The loop \<^verbatim>\<open>while multiplos > 0\<close> of both feed functions; \<open>c\<close> is the command byte
  (0x4A forward, 0x42 backward).
\<close>

function while_multiplos :: "byte \<Rightarrow> int \<Rightarrow> np3511d \<Rightarrow> np3511d option" where
  "while_multiplos c multiplos p =
     (if multiplos > 0
      then do { b \<leftarrow> bytes1 (py_int (31.875 * 8));
                while_multiplos c (multiplos - 1) (raw p ([ESC, c] @ b)) }
      else Some p)"
  by pat_completeness auto
termination
  by (relation "measure (\<lambda>(c, multiplos, p). nat multiplos)") auto

function feed_forward_mm :: "np3511d \<Rightarrow> real \<Rightarrow> (np3511d \<times> real) option"
  and feed_backward_mm :: "np3511d \<Rightarrow> real \<Rightarrow> (np3511d \<times> real) option" where
  "feed_forward_mm p distance =
     (if distance < 0 then feed_backward_mm p (- distance)
      else do {
        let multiplos = py_int (distance / 31.875);
        let resto = py_mod distance 31.875;
        p \<leftarrow> while_multiplos 0x4A multiplos p;
        b \<leftarrow> bytes1 (py_int (resto * 8));
        Some (raw p ([ESC, 0x4A] @ b), distance) })"
| "feed_backward_mm p distance =
     (if distance < 0 then feed_forward_mm p (- distance)
      else do {
        let multiplos = py_int (distance / 31.875);
        let resto = py_mod distance 31.875;
        p \<leftarrow> while_multiplos 0x42 multiplos p;
        b \<leftarrow> bytes1 (py_int (resto * 8));
        Some (raw p ([ESC, 0x42] @ b), - distance) })"
  by pat_completeness auto
termination
  by (relation "measure (\<lambda>x. case x of Inl (p, d) \<Rightarrow> (if d < 0 then 1 else 0)
                                       | Inr (p, d) \<Rightarrow> (if d < 0 then 1 else 0))") auto


declare while_multiplos.simps [simp del]
declare feed_forward_mm.simps [simp del] feed_backward_mm.simps [simp del]

subsection \<open>The print sink\<close>

text \<open>
  \<^verbatim>\<open>print_buffer\<close> hands a buffer to the Windows spooler (\<^verbatim>\<open>IMPRIMIR = True\<close>). The model
  records the buffers handed over, in order, and the contents of the dummy printer that
  each \<^verbatim>\<open>p.clear(); p.close(); p = None\<close> throws away.
\<close>

record world =
  sent :: "chunk list list"
  dropped :: "chunk list list"

definition print_buffer :: "world \<Rightarrow> chunk list \<Rightarrow> world" where
  "print_buffer w buffer = w\<lparr>sent := sent w @ [buffer]\<rparr>"

definition close_dummy :: "world \<Rightarrow> np3511d \<Rightarrow> world" where
  "close_dummy w p = w\<lparr>dropped := dropped w @ [output_list p]\<rparr>"

subsection \<open>Layout\<close>

text \<open>
  The expression \<^verbatim>\<open>int(((alto_etiqueta - 2 * MARGIN - 6 * nro_lineas) / (nro_bloques - 1)) * 8) / 8\<close>
  of lines 293, 348, 403, 455 and 593, as a function of the four names it reads. A zero
  divisor raises \<^verbatim>\<open>ZeroDivisionError\<close>.
\<close>

definition calc_separacion :: "int \<Rightarrow> int \<Rightarrow> int \<Rightarrow> int \<Rightarrow> real option" where
  "calc_separacion alto_etiqueta margin nro_lineas nro_bloques =
     (if nro_bloques - 1 = 0 then None
      else Some (of_int (py_int ((of_int (alto_etiqueta - 2 * margin - 6 * nro_lineas)
                                    / of_int (nro_bloques - 1)) * 8)) / 8))"

subsection \<open>button\_print\_callback\<close>

text \<open>What the form holds when a callback runs: the three option menus (label type, and
  label height and gap already read by \<^verbatim>\<open>int(...)\<close>) and the five entry fields.\<close>

record entradas =
  optionmenu_label_type :: string
  optionmenu_label_size :: int
  optionmenu_gap_size :: int
  entrada_osi :: string
  entrada_claim :: string
  entrada_fru :: string
  entrada_4ta_linea :: string
  entrada_5ta_linea :: string

text \<open>Lines 235--276 (and 547--588): a fresh dummy printer, the configuration, the backward
  alignment feed and the initial head position.\<close>

definition preparar :: "int \<Rightarrow> (np3511d \<times> real) option" where
  "preparar gap = do {
     let p = Np3511d;
     let p = reset p;
     p \<leftarrow> set_lf_pitch p 0;
     let p = set_double_width_and_height p;
     let p = set_alignment p ''LEFT'';
     let p = set_max_print_speed p 75;
     p \<leftarrow> set_print_density p 130;
     let p = set_enhanced_print_on p;
     let p = set_double_strike_on p;
     p \<leftarrow> set_margins p 6 66;
     (p, _) \<leftarrow> feed_backward_mm p (CUTTER_OFFSET - of_int gap / 2 - of_int MARGIN + POST_CUT_ADV);
     let head_pos = of_int MARGIN + of_int gap / 2;
     Some (p, head_pos) }"

text \<open>Case "Ingreso Equipo" after the length check: the blocks (lines 290--325), then the
  feed to the cut point (line 331).\<close>

definition bloques_ingreso_equipo :: "np3511d \<Rightarrow> real \<Rightarrow> int \<Rightarrow> string \<Rightarrow> (np3511d \<times> real) option" where
  "bloques_ingreso_equipo p head_pos alto_etiqueta nro_osi = do {
     let nro_lineas = 5;
     let nro_bloques = 3;
     separacion \<leftarrow> calc_separacion alto_etiqueta MARGIN nro_lineas nro_bloques;
     let p = text_out p ('' OSI '' @ nro_osi @ [CHR 0x09] @ ''   *'' @ nro_osi);
     let head_pos = head_pos + 6;
     p \<leftarrow> barcode p (''*'' @ nro_osi @ ''*'') ''CODE39'' 3 48 ''OFF'' False;
     let head_pos = head_pos + 6;
     (p, d) \<leftarrow> feed_forward_mm p separacion;
     let head_pos = head_pos + d;
     let p = text_out p ('' OSI '' @ nro_osi @ [CHR 0x09] @ ''   *'' @ nro_osi);
     let head_pos = head_pos + 6;
     p \<leftarrow> barcode p (''*'' @ nro_osi @ ''*'') ''CODE39'' 3 48 ''OFF'' False;
     let head_pos = head_pos + 6;
     (p, d) \<leftarrow> feed_forward_mm p separacion;
     let head_pos = head_pos + d;
     let p = text_out p ('' OSI '' @ nro_osi @ [CHR 0x09] @ ''   *'' @ nro_osi);
     let head_pos = head_pos + 6;
     Some (p, head_pos) }"

definition etiqueta_ingreso_equipo :: "np3511d \<Rightarrow> real \<Rightarrow> int \<Rightarrow> int \<Rightarrow> string \<Rightarrow> (np3511d \<times> real) option" where
  "etiqueta_ingreso_equipo p head_pos alto_etiqueta gap nro_osi = do {
     (p, head_pos) \<leftarrow> bloques_ingreso_equipo p head_pos alto_etiqueta nro_osi;
     (p, d) \<leftarrow> feed_forward_mm p (of_int alto_etiqueta + of_int gap - head_pos + CUTTER_OFFSET + AJUSTE);
     let head_pos = head_pos + d;
     Some (p, head_pos) }"

text \<open>Case "Ingreso Golden Unit" (lines 345--380, 386). The barcode call gives no width: the
  library's default is 3, as the comment on line 356 records.\<close>

definition bloques_golden_unit :: "np3511d \<Rightarrow> real \<Rightarrow> int \<Rightarrow> string \<Rightarrow> (np3511d \<times> real) option" where
  "bloques_golden_unit p head_pos alto_etiqueta nro_osi = do {
     let nro_lineas = 5;
     let nro_bloques = 3;
     separacion \<leftarrow> calc_separacion alto_etiqueta MARGIN nro_lineas nro_bloques;
     let p = text_out p (''  GU '' @ nro_osi @ [CHR 0x09] @ ''   _'' @ nro_osi);
     let head_pos = head_pos + 6;
     p \<leftarrow> barcode p (''*'' @ nro_osi @ ''*'') ''CODE39'' 3 48 ''OFF'' False;
     let head_pos = head_pos + 6;
     (p, d) \<leftarrow> feed_forward_mm p separacion;
     let head_pos = head_pos + d;
     let p = text_out p (''  GU '' @ nro_osi @ [CHR 0x09] @ ''   _'' @ nro_osi);
     let head_pos = head_pos + 6;
     p \<leftarrow> barcode p (''*'' @ nro_osi @ ''*'') ''CODE39'' 3 48 ''OFF'' False;
     let head_pos = head_pos + 6;
     (p, d) \<leftarrow> feed_forward_mm p separacion;
     let head_pos = head_pos + d;
     let p = text_out p (''  GU '' @ nro_osi @ [CHR 0x09] @ ''   _'' @ nro_osi);
     let head_pos = head_pos + 6;
     Some (p, head_pos) }"

definition etiqueta_golden_unit :: "np3511d \<Rightarrow> real \<Rightarrow> int \<Rightarrow> int \<Rightarrow> string \<Rightarrow> (np3511d \<times> real) option" where
  "etiqueta_golden_unit p head_pos alto_etiqueta gap nro_osi = do {
     (p, head_pos) \<leftarrow> bloques_golden_unit p head_pos alto_etiqueta nro_osi;
     (p, d) \<leftarrow> feed_forward_mm p (of_int alto_etiqueta + of_int gap - head_pos + CUTTER_OFFSET + AJUSTE);
     let head_pos = head_pos + d;
     Some (p, head_pos) }"

text \<open>Case "Salida Parte" (lines 400--441, 447); the same statements are the body of the
  loop of \<^verbatim>\<open>print_excel\<close> (lines 593, 604--632, 638). \<open>hoy\<close> is the text that
  \<^verbatim>\<open>datetime.now().strftime("%d/%m/%Y")\<close> returns when the label is composed.\<close>

definition bloques_salida_parte ::
  "np3511d \<Rightarrow> real \<Rightarrow> int \<Rightarrow> string \<Rightarrow> string \<Rightarrow> string \<Rightarrow> string \<Rightarrow> (np3511d \<times> real) option" where
  "bloques_salida_parte p head_pos alto_etiqueta nro_osi nro_claim nro_fru hoy = do {
     let nro_lineas = 5;
     let nro_bloques = 3;
     separacion \<leftarrow> calc_separacion alto_etiqueta MARGIN nro_lineas nro_bloques;
     let p = text_out p (''           '' @ hoy @ [CHR 0x0A]);
     let head_pos = head_pos + 6;
     (p, d) \<leftarrow> feed_forward_mm p separacion;
     let head_pos = head_pos + d;
     let p = text_out p ('' FRU:   '' @ nro_fru @ [CHR 0x0A]);
     let head_pos = head_pos + 6;
     let p = text_out p ('' CLAIM: '' @ nro_claim @ [CHR 0x0A]);
     let head_pos = head_pos + 6;
     (p, d) \<leftarrow> feed_forward_mm p separacion;
     let head_pos = head_pos + d;
     let p = text_out p ('' OSI:   '' @ nro_osi @ [CHR 0x0A]);
     let head_pos = head_pos + 6;
     p \<leftarrow> barcode p (''*'' @ nro_osi @ ''*'') ''CODE39'' 4 48 ''OFF'' False;
     let head_pos = head_pos + 6;
     Some (p, head_pos) }"

definition etiqueta_salida_parte ::
  "np3511d \<Rightarrow> real \<Rightarrow> int \<Rightarrow> int \<Rightarrow> string \<Rightarrow> string \<Rightarrow> string \<Rightarrow> string \<Rightarrow> (np3511d \<times> real) option" where
  "etiqueta_salida_parte p head_pos alto_etiqueta gap nro_osi nro_claim nro_fru hoy = do {
     (p, head_pos) \<leftarrow> bloques_salida_parte p head_pos alto_etiqueta nro_osi nro_claim nro_fru hoy;
     (p, d) \<leftarrow> feed_forward_mm p (of_int alto_etiqueta + of_int gap - head_pos + CUTTER_OFFSET);
     let head_pos = head_pos + d;
     Some (p, head_pos) }"

text \<open>Case "Libre" (lines 452--476, 482): the loop over the five lines.\<close>

fun for_linea :: "real \<Rightarrow> string list \<Rightarrow> np3511d \<Rightarrow> real \<Rightarrow> (np3511d \<times> real) option" where
  "for_linea separacion [] p head_pos = Some (p, head_pos)"
| "for_linea separacion (linea # lineas) p head_pos = do {
     let p = (if length linea > 0 then text_out p (linea @ [CHR 0x0A])
              else text_out p ('' '' @ [CHR 0x0A]));
     let head_pos = head_pos + 6;
     (p, d) \<leftarrow> feed_forward_mm p separacion;
     let head_pos = head_pos + d;
     for_linea separacion lineas p head_pos }"

definition bloques_libre :: "np3511d \<Rightarrow> real \<Rightarrow> int \<Rightarrow> entradas \<Rightarrow> (np3511d \<times> real) option" where
  "bloques_libre p head_pos alto_etiqueta ui = do {
     let nro_lineas = 5;
     let nro_bloques = 5;
     separacion \<leftarrow> calc_separacion alto_etiqueta MARGIN nro_lineas nro_bloques;
     let lineas = [];
     let lineas = lineas @ [take 20 (entrada_osi ui)];
     let lineas = lineas @ [take 20 (entrada_claim ui)];
     let lineas = lineas @ [take 20 (entrada_fru ui)];
     let lineas = lineas @ [take 20 (entrada_4ta_linea ui)];
     let lineas = lineas @ [take 20 (entrada_5ta_linea ui)];
     for_linea separacion lineas p head_pos }"

definition etiqueta_libre :: "np3511d \<Rightarrow> real \<Rightarrow> int \<Rightarrow> int \<Rightarrow> entradas \<Rightarrow> (np3511d \<times> real) option" where
  "etiqueta_libre p head_pos alto_etiqueta gap ui = do {
     (p, head_pos) \<leftarrow> bloques_libre p head_pos alto_etiqueta ui;
     (p, d) \<leftarrow> feed_forward_mm p (of_int alto_etiqueta + of_int gap - head_pos + CUTTER_OFFSET);
     let head_pos = head_pos + d;
     Some (p, head_pos) }"

text \<open>Lines 487--496: cut, hand the buffer to the sink, close the dummy printer.\<close>

definition cortar_e_imprimir :: "world \<Rightarrow> np3511d \<Rightarrow> world" where
  "cortar_e_imprimir w p =
     (let p = full_cut p;
          w = print_buffer w (output_list p)
      in close_dummy w p)"

definition button_print_callback :: "entradas \<Rightarrow> string \<Rightarrow> world \<Rightarrow> world option" where
  "button_print_callback ui hoy w = do {
     (p, head_pos) \<leftarrow> preparar (optionmenu_gap_size ui);
     if optionmenu_label_type ui = ''Ingreso Equipo'' then
       (let nro_osi = entrada_osi ui in
        if length nro_osi \<noteq> 6 then Some (close_dummy w p)
        else do {
          (p, head_pos) \<leftarrow> etiqueta_ingreso_equipo p head_pos (optionmenu_label_size ui) (optionmenu_gap_size ui) nro_osi;
          Some (cortar_e_imprimir w p) })
     else if optionmenu_label_type ui = ''Ingreso Golden Unit'' then
       (let nro_osi = entrada_osi ui in
        if length nro_osi \<noteq> 6 then Some (close_dummy w p)
        else do {
          (p, head_pos) \<leftarrow> etiqueta_golden_unit p head_pos (optionmenu_label_size ui) (optionmenu_gap_size ui) nro_osi;
          Some (cortar_e_imprimir w p) })
     else if optionmenu_label_type ui = ''Salida Parte'' then do {
       let nro_osi = entrada_osi ui;
       let nro_claim = take 14 (entrada_claim ui);
       let nro_fru = take 14 (entrada_fru ui);
       (p, head_pos) \<leftarrow> etiqueta_salida_parte p head_pos (optionmenu_label_size ui) (optionmenu_gap_size ui)
                          nro_osi nro_claim nro_fru hoy;
       Some (cortar_e_imprimir w p) }
     else if optionmenu_label_type ui = ''Libre'' then do {
       (p, head_pos) \<leftarrow> etiqueta_libre p head_pos (optionmenu_label_size ui) (optionmenu_gap_size ui) ui;
       Some (cortar_e_imprimir w p) }
     else Some (cortar_e_imprimir w p) }"

subsection \<open>button\_forward\_callback and print\_excel\<close>

definition button_forward_callback :: "world \<Rightarrow> world option" where
  "button_forward_callback w = do {
     let p = Np3511d;
     (p, _) \<leftarrow> feed_forward_mm p 0.5;
     let w = print_buffer w (output_list p);
     Some (close_dummy w p) }"

text \<open>
  The state of the loop of \<^verbatim>\<open>print_excel\<close>: the one dummy printer, the head position, the
  row counter and the sink. A row is \<^verbatim>\<open>(str(value[0]), str(value[1]), str(value[2]))\<close>;
  \<open>reloj i\<close> is the date text read while row \<open>i\<close> is composed. The spacing of line 593 is
  computed inside \<^verbatim>\<open>etiqueta_salida_parte\<close>, after the call of \<^verbatim>\<open>button_forward_callback\<close>
  instead of before it; it has no effect and cannot fail.
\<close>

record excel_state =
  ex_p :: np3511d
  ex_head_pos :: real
  ex_i :: int
  ex_w :: world

definition excel_fila ::
  "int \<Rightarrow> int \<Rightarrow> (int \<Rightarrow> string) \<Rightarrow> string \<times> string \<times> string \<Rightarrow> excel_state \<Rightarrow> excel_state option" where
  "excel_fila alto_etiqueta gap reloj fila st = do {
     let i = ex_i st + 1;
     let (nro_osi, nro_claim, nro_fru) = fila;
     w \<leftarrow> (if i mod 5 = 0 then button_forward_callback (ex_w st) else Some (ex_w st));
     let hoy = reloj i;
     (p, head_pos) \<leftarrow> etiqueta_salida_parte (ex_p st) (ex_head_pos st) alto_etiqueta gap
                        nro_osi nro_claim nro_fru hoy;
     let p = full_cut p;
     let w = print_buffer w (output_list p);
     Some \<lparr>ex_p = p, ex_head_pos = head_pos, ex_i = i, ex_w = w\<rparr> }"

fun for_value ::
  "int \<Rightarrow> int \<Rightarrow> (int \<Rightarrow> string) \<Rightarrow> (string \<times> string \<times> string) list \<Rightarrow> excel_state \<Rightarrow> excel_state option" where
  "for_value alto_etiqueta gap reloj [] st = Some st"
| "for_value alto_etiqueta gap reloj (fila # filas) st = do {
     st \<leftarrow> excel_fila alto_etiqueta gap reloj fila st;
     for_value alto_etiqueta gap reloj filas st }"

definition print_excel ::
  "int \<Rightarrow> int \<Rightarrow> (int \<Rightarrow> string) \<Rightarrow> (string \<times> string \<times> string) list \<Rightarrow> world \<Rightarrow> world option" where
  "print_excel alto_etiqueta gap reloj filas w = do {
     (p, head_pos) \<leftarrow> preparar gap;
     st \<leftarrow> for_value alto_etiqueta gap reloj filas
             \<lparr>ex_p = p, ex_head_pos = head_pos, ex_i = 0, ex_w = w\<rparr>;
     Some (close_dummy (ex_w st) (ex_p st)) }"

subsection \<open>Reading the buffer\<close>

text \<open>The chunks that one feed call leaves in the buffer, in closed form: the full steps
  and the remainder command, for command byte \<open>c\<close> and a distance \<open>d \<ge> 0\<close>.\<close>

definition feed_cmds :: "byte \<Rightarrow> real \<Rightarrow> chunk list" where
  "feed_cmds c d =
     replicate (nat \<lfloor>d / 31.875\<rfloor>) (Raw [ESC, c, 255])
       @ [Raw [ESC, c, word_of_int \<lfloor>py_mod d 31.875 * 8\<rfloor>]]"

definition forward_out :: "real \<Rightarrow> chunk list" where
  "forward_out d = (if d < 0 then feed_cmds 0x42 (- d) else feed_cmds 0x4A d)"

definition backward_out :: "real \<Rightarrow> chunk list" where
  "backward_out d = (if d < 0 then feed_cmds 0x4A (- d) else feed_cmds 0x42 d)"

text \<open>The guards of the two feed functions alone: how many times a call with distance
  \<open>d\<close> is handed over to the opposite function before a body runs.\<close>

function redirects_forward :: "real \<Rightarrow> nat" and redirects_backward :: "real \<Rightarrow> nat" where
  "redirects_forward distance =
     (if distance < 0 then Suc (redirects_backward (- distance)) else 0)"
| "redirects_backward distance =
     (if distance < 0 then Suc (redirects_forward (- distance)) else 0)"
  by pat_completeness auto
termination
  by (relation "measure (\<lambda>x. case x of Inl d \<Rightarrow> (if d < 0 then 1 else 0)
                                       | Inr d \<Rightarrow> (if d < 0 then 1 else 0))") auto

declare redirects_forward.simps [simp del] redirects_backward.simps [simp del]

text \<open>The nine configuration commands of lines 238--260, as \<^verbatim>\<open>preparar\<close> leaves them in the
  buffer, and the chunks of the blocks of each label template.\<close>

definition config_cmds :: "chunk list" where
  "config_cmds =
     [Raw [ESC, 0x40], Raw [ESC, 0x33, 0], Raw [ESC, 0x21, 0x38], Raw [ESC, 0x61, 0],
      Raw [GS, 0x53, 4], Raw [GS, 0x7E, 130], Raw [ESC, 0x45, 1], Raw [ESC, 0x47, 1],
      Raw [GS, 0x57, 6, 66]]"

definition ingreso_equipo_out :: "int \<Rightarrow> string \<Rightarrow> chunk list" where
  "ingreso_equipo_out alto nro_osi =
     [Text ('' OSI '' @ nro_osi @ [CHR 0x09] @ ''   *'' @ nro_osi),
      Barcode (''*'' @ nro_osi @ ''*'') ''CODE39'' 3 48 ''OFF'' False]
     @ forward_out ((of_int alto - 38) / 2)
     @ [Text ('' OSI '' @ nro_osi @ [CHR 0x09] @ ''   *'' @ nro_osi),
        Barcode (''*'' @ nro_osi @ ''*'') ''CODE39'' 3 48 ''OFF'' False]
     @ forward_out ((of_int alto - 38) / 2)
     @ [Text ('' OSI '' @ nro_osi @ [CHR 0x09] @ ''   *'' @ nro_osi)]"


definition libre_out :: "int \<Rightarrow> string list \<Rightarrow> chunk list" where
  "libre_out alto lineas =
     concat (map (\<lambda>linea. Text (if length linea > 0 then linea @ [CHR 0x0A] else '' '' @ [CHR 0x0A])
                            # forward_out ((of_int alto - 38) / 4)) lineas)"

definition salida_parte_out :: "int \<Rightarrow> string \<Rightarrow> string \<Rightarrow> string \<Rightarrow> string \<Rightarrow> chunk list" where
  "salida_parte_out alto nro_osi nro_claim nro_fru hoy =
     [Text (''           '' @ hoy @ [CHR 0x0A])]
     @ forward_out ((of_int alto - 38) / 2)
     @ [Text ('' FRU:   '' @ nro_fru @ [CHR 0x0A]), Text ('' CLAIM: '' @ nro_claim @ [CHR 0x0A])]
     @ forward_out ((of_int alto - 38) / 2)
     @ [Text ('' OSI:   '' @ nro_osi @ [CHR 0x0A]),
        Barcode (''*'' @ nro_osi @ ''*'') ''CODE39'' 4 48 ''OFF'' False]"

fun is_text :: "chunk \<Rightarrow> bool" where
  "is_text (Text s) = True"
| "is_text c = False"

fun is_barcode :: "chunk \<Rightarrow> bool" where
  "is_barcode (Barcode code bc width height pos align_ct) = True"
| "is_barcode c = False"

fun is_feed_forward :: "chunk \<Rightarrow> bool" where
  "is_feed_forward (Raw [a, b, n]) = (a = ESC \<and> b = 0x4A)"
| "is_feed_forward c = False"

text \<open>The spec's words for the remainder command of a feed: round(8 (d mod 31.875)).\<close>

definition spec_remainder_steps :: "real \<Rightarrow> int" where
  "spec_remainder_steps d = round (py_mod d 31.875 * 8)"



section \<open>Feed encoding\<close>

lemma py_int_nonneg: "0 \<le> x \<Longrightarrow> py_int x = \<lfloor>x\<rfloor>"
  by (simp add: py_int_def)

lemma py_int_of_int: "py_int (of_int k) = k"
  by (simp add: py_int_def)

lemma bytes1_255: "bytes1 (py_int 255) = Some [255]"
  by (simp add: py_int_def bytes1_def)

lemma while_multiplos_eq:
  "while_multiplos c k p =
     Some (p\<lparr>output_list := output_list p @ replicate (nat k) (Raw [ESC, c, 255])\<rparr>)"
proof (induction c k p rule: while_multiplos.induct)
  case (1 c multiplos p)
  show ?case
  proof (cases "multiplos > 0")
    case True
    then have n: "nat multiplos = Suc (nat (multiplos - 1))" by simp
    have b: "bytes1 (py_int (31.875 * 8)) = Some [255]" by (simp add: bytes1_255)
    have "while_multiplos c multiplos p = while_multiplos c (multiplos - 1) (raw p ([ESC, c] @ [255]))"
      using True by (subst while_multiplos.simps) (simp add: bytes1_255)
    also have "\<dots> = Some (p\<lparr>output_list := output_list p @ replicate (nat multiplos) (Raw [ESC, c, 255])\<rparr>)"
      using "1.IH"[OF True b] unfolding n
      by (simp add: raw_def replicate_append_same)
    finally show ?thesis .
  next
    case False
    then show ?thesis by (subst while_multiplos.simps) simp
  qed
qed

lemma py_mod_bounds: "0 < y \<Longrightarrow> 0 \<le> py_mod x y \<and> py_mod x y < y"
proof -
  assume y: "0 < y"
  have 1: "of_int \<lfloor>x / y\<rfloor> \<le> x / y" by simp
  have 2: "x / y < of_int \<lfloor>x / y\<rfloor> + 1" by linarith
  from 1 y have a: "of_int \<lfloor>x / y\<rfloor> * y \<le> x" using pos_le_divide_eq by blast
  from 2 y have b: "x < (of_int \<lfloor>x / y\<rfloor> + 1) * y" using pos_divide_less_eq by blast
  from a b show ?thesis by (simp add: py_mod_def algebra_simps)
qed

lemma py_mod_small: "0 \<le> x \<Longrightarrow> x < y \<Longrightarrow> py_mod x y = x"
proof -
  assume a: "0 \<le> x" "x < y"
  then have "0 \<le> x / y" "x / y < 1" by simp_all
  then have "\<lfloor>x / y\<rfloor> = 0" by (simp add: floor_eq_iff)
  then show ?thesis by (simp add: py_mod_def)
qed

lemma resto_floor_range:
  "0 \<le> \<lfloor>py_mod d (255 / 8) * 8\<rfloor> \<and> \<lfloor>py_mod d (255 / 8) * 8\<rfloor> \<le> 254"
proof -
  have b: "0 \<le> py_mod d (255 / 8) \<and> py_mod d (255 / 8) < 255 / 8"
    by (rule py_mod_bounds) simp
  then have nn: "0 \<le> py_mod d (255 / 8) * 8" by simp
  have lt: "py_mod d (255 / 8) * 8 < 255" using b by simp
  have "\<lfloor>py_mod d (255 / 8) * 8\<rfloor> < 255" using lt by (simp add: floor_less_iff)
  moreover have "0 \<le> \<lfloor>py_mod d (255 / 8) * 8\<rfloor>" using nn by simp
  ultimately show ?thesis by simp
qed

lemma py_int_resto: "py_int (py_mod d (255 / 8) * 8) = \<lfloor>py_mod d (255 / 8) * 8\<rfloor>"
proof -
  have "0 \<le> py_mod d (255 / 8)" using py_mod_bounds[of "255 / 8" d] by simp
  then show ?thesis by (simp add: py_int_def)
qed

lemma bytes1_resto:
  "bytes1 (py_int (py_mod d (255 / 8) * 8)) = Some [word_of_int \<lfloor>py_mod d (255 / 8) * 8\<rfloor>]"
  using resto_floor_range[of d] by (simp add: py_int_resto bytes1_def)

lemma feed_forward_mm_nonneg:
  assumes "0 \<le> d"
  shows "feed_forward_mm p d = Some (p\<lparr>output_list := output_list p @ feed_cmds 0x4A d\<rparr>, d)"
proof -
  have m: "py_int (d * 8 / 255) = \<lfloor>d * 8 / 255\<rfloor>" using assms by (simp add: py_int_def)
  show ?thesis
    using assms
    by (subst feed_forward_mm.simps)
       (simp add: m bytes1_resto while_multiplos_eq raw_def feed_cmds_def Let_def)
qed

lemma feed_backward_mm_nonneg:
  assumes "0 \<le> d"
  shows "feed_backward_mm p d = Some (p\<lparr>output_list := output_list p @ feed_cmds 0x42 d\<rparr>, - d)"
proof -
  have m: "py_int (d * 8 / 255) = \<lfloor>d * 8 / 255\<rfloor>" using assms by (simp add: py_int_def)
  show ?thesis
    using assms
    by (subst feed_backward_mm.simps)
       (simp add: m bytes1_resto while_multiplos_eq raw_def feed_cmds_def Let_def)
qed

lemma feed_forward_mm_out:
  "feed_forward_mm p d = Some (p\<lparr>output_list := output_list p @ forward_out d\<rparr>, d)"
proof (cases "d < 0")
  case True
  then show ?thesis
    using feed_backward_mm_nonneg[of "- d" p]
    by (subst feed_forward_mm.simps) (simp add: forward_out_def)
next
  case False
  then show ?thesis
    using feed_forward_mm_nonneg[of d p] by (simp add: forward_out_def)
qed

lemma feed_backward_mm_out:
  "feed_backward_mm p d = Some (p\<lparr>output_list := output_list p @ backward_out d\<rparr>, - d)"
proof (cases "d < 0")
  case True
  then show ?thesis
    using feed_forward_mm_nonneg[of "- d" p]
    by (subst feed_backward_mm.simps) (simp add: backward_out_def)
next
  case False
  then show ?thesis
    using feed_backward_mm_nonneg[of d p] by (simp add: backward_out_def)
qed

lemma redirects_le_1: "redirects_forward d \<le> 1 \<and> redirects_backward d \<le> 1"
proof (cases "d < 0")
  case True
  then have "redirects_forward (- d) = 0" "redirects_backward (- d) = 0"
    by (simp_all add: redirects_forward.simps redirects_backward.simps)
  then show ?thesis
    by (simp add: redirects_forward.simps[of d] redirects_backward.simps[of d])
next
  case False
  then show ?thesis
    by (simp add: redirects_forward.simps[of d] redirects_backward.simps[of d])
qed


text \<open>
  Claim C1, as amended. For every distance \<open>d \<ge> 0\<close>, \<^verbatim>\<open>feed_forward_mm\<close> (and symmetrically
  \<^verbatim>\<open>feed_backward_mm\<close>) appends exactly \<open>floor (d / 31.875)\<close> full-step commands of 255 steps
  and then exactly one remainder command, whose single-byte step count is the truncation
  \<open>floor (8 (d mod 31.875))\<close>, a value in 0..254; \<^verbatim>\<open>feed_forward_mm\<close> returns \<open>d\<close> and
  \<^verbatim>\<open>feed_backward_mm\<close> returns \<open>- d\<close>, the signed distance requested.
\<close>

theorem feed_mm_full_steps_and_truncated_remainder:
  assumes "0 \<le> d"
  shows "feed_forward_mm p d =
           Some (p\<lparr>output_list := output_list p
                      @ replicate (nat \<lfloor>d / 31.875\<rfloor>) (Raw [ESC, 0x4A, 255])
                      @ [Raw [ESC, 0x4A, word_of_int \<lfloor>py_mod d 31.875 * 8\<rfloor>]]\<rparr>, d)
       \<and> feed_backward_mm p d =
           Some (p\<lparr>output_list := output_list p
                      @ replicate (nat \<lfloor>d / 31.875\<rfloor>) (Raw [ESC, 0x42, 255])
                      @ [Raw [ESC, 0x42, word_of_int \<lfloor>py_mod d 31.875 * 8\<rfloor>]]\<rparr>, - d)
       \<and> 0 \<le> \<lfloor>py_mod d 31.875 * 8\<rfloor> \<and> \<lfloor>py_mod d 31.875 * 8\<rfloor> \<le> 254"
  using assms feed_forward_mm_nonneg[of d p] feed_backward_mm_nonneg[of d p] resto_floor_range[of d]
  by (simp add: feed_cmds_def)

text \<open>The theorem of C1 at the distance 40 mm: one full step and a remainder of 65 steps.\<close>

theorem feed_mm_full_steps_and_truncated_remainder_witness:
  "(0::real) \<le> 40
   \<and> feed_forward_mm Np3511d 40 = Some (\<lparr>output_list = [Raw [0x1b, 0x4A, 255], Raw [0x1b, 0x4A, 65]]\<rparr>, 40)
   \<and> feed_backward_mm Np3511d 40 = Some (\<lparr>output_list = [Raw [0x1b, 0x42, 255], Raw [0x1b, 0x42, 65]]\<rparr>, - 40)"
proof -
  have f: "\<lfloor>(40::real) * 8 / 255\<rfloor> = 1" by simp
  have m: "py_mod 40 (255 / 8) = 65 / 8" by (simp add: py_mod_def)
  show ?thesis
    using feed_mm_full_steps_and_truncated_remainder[of 40 Np3511d]
    by (simp add: Np3511d_def ESC_def f m)
qed

text \<open>
  Claim C1 as stated fails: the remainder is truncated, not rounded. For a request of
  3/32 mm the remainder command carries 0 steps, where round(8 (d mod 31.875)) is 1.
\<close>

theorem feed_remainder_not_rounded:
  "feed_forward_mm Np3511d (3/32) = Some (\<lparr>output_list = [Raw [ESC, 0x4A, 0]]\<rparr>, 3/32)
   \<and> spec_remainder_steps (3/32) = 1
   \<and> (0 :: byte) \<noteq> word_of_int (spec_remainder_steps (3/32))"
proof -
  have m: "py_mod (3/32) (255 / 8) = 3/32" by (rule py_mod_small) simp_all
  have "feed_forward_mm Np3511d (3/32) = Some (\<lparr>output_list = [Raw [ESC, 0x4A, 0]]\<rparr>, 3/32)"
    by (simp add: feed_forward_mm_nonneg feed_cmds_def m Np3511d_def)
  moreover have "spec_remainder_steps (3/32) = 1"
    by (simp add: spec_remainder_steps_def m round_def)
  ultimately show ?thesis by simp
qed

text \<open>On every multiple of 1/8 mm, which is what the program itself requests, truncating
  and rounding the remainder give the same step count.\<close>

lemma remainder_rounding_agrees_on_eighths:
  "\<lfloor>py_mod (of_int k / 8) 31.875 * 8\<rfloor> = spec_remainder_steps (of_int k / 8)"
proof -
  have q: "\<lfloor>(of_int k / 8) / (255 / 8 :: real)\<rfloor> = k div 255"
  proof -
    have "(of_int k / 8) / (255 / 8 :: real) = of_int k / of_int 255" by simp
    then show ?thesis by (simp only: floor_divide_of_int_eq)
  qed
  have "py_mod (of_int k / 8) (255 / 8) * 8 = of_int (k - (k div 255) * 255)"
    unfolding py_mod_def q by (simp add: algebra_simps)
  then have "py_mod (of_int k / 8) 31.875 * 8 = of_int (k - (k div 255) * 255)" by simp
  then show ?thesis
    unfolding spec_remainder_steps_def by (simp only: floor_of_int round_of_int)
qed

text \<open>
  Claim C10. For every distance \<open>d\<close>, positive, zero or negative, both feed functions return
  (no byte construction fails), after at most one hand-over to the opposite function; every
  full-step command encodes \<^verbatim>\<open>int(31.875 * 8)\<close>, which is 255, and the remainder command
  encodes \<^verbatim>\<open>int(8 * (|d| % 31.875))\<close>, which lies in 0..254.
\<close>

theorem feed_mm_total_single_byte_range:
  "py_int (31.875 * 8) = 255
   \<and> redirects_forward d \<le> 1 \<and> redirects_backward d \<le> 1
   \<and> 0 \<le> py_int (py_mod \<bar>d\<bar> 31.875 * 8) \<and> py_int (py_mod \<bar>d\<bar> 31.875 * 8) \<le> 254
   \<and> feed_forward_mm p d =
       Some (p\<lparr>output_list := output_list p
                  @ replicate (nat (py_int (\<bar>d\<bar> / 31.875)))
                      (Raw [ESC, if d < 0 then 0x42 else 0x4A, word_of_int (py_int (31.875 * 8))])
                  @ [Raw [ESC, if d < 0 then 0x42 else 0x4A,
                          word_of_int (py_int (py_mod \<bar>d\<bar> 31.875 * 8))]]\<rparr>, d)
   \<and> feed_backward_mm p d =
       Some (p\<lparr>output_list := output_list p
                  @ replicate (nat (py_int (\<bar>d\<bar> / 31.875)))
                      (Raw [ESC, if d < 0 then 0x4A else 0x42, word_of_int (py_int (31.875 * 8))])
                  @ [Raw [ESC, if d < 0 then 0x4A else 0x42,
                          word_of_int (py_int (py_mod \<bar>d\<bar> 31.875 * 8))]]\<rparr>, - d)"
proof -
  have a: "py_int (31.875 * 8) = 255" by (simp add: py_int_def)
  have a': "py_int 255 = 255" by (simp add: py_int_def)
  have m: "py_int (\<bar>d\<bar> * 8 / 255) = \<lfloor>\<bar>d\<bar> * 8 / 255\<rfloor>" by (simp add: py_int_def)
  have r: "0 \<le> py_int (py_mod \<bar>d\<bar> 31.875 * 8) \<and> py_int (py_mod \<bar>d\<bar> 31.875 * 8) \<le> 254"
    using resto_floor_range[of "\<bar>d\<bar>"] by (simp add: py_int_resto)
  have f: "feed_forward_mm p d =
       Some (p\<lparr>output_list := output_list p
                  @ replicate (nat (py_int (\<bar>d\<bar> / 31.875)))
                      (Raw [ESC, if d < 0 then 0x42 else 0x4A, word_of_int (py_int (31.875 * 8))])
                  @ [Raw [ESC, if d < 0 then 0x42 else 0x4A,
                          word_of_int (py_int (py_mod \<bar>d\<bar> 31.875 * 8))]]\<rparr>, d)"
    using m by (simp add: feed_forward_mm_out forward_out_def feed_cmds_def py_int_resto a')
  have b: "feed_backward_mm p d =
       Some (p\<lparr>output_list := output_list p
                  @ replicate (nat (py_int (\<bar>d\<bar> / 31.875)))
                      (Raw [ESC, if d < 0 then 0x4A else 0x42, word_of_int (py_int (31.875 * 8))])
                  @ [Raw [ESC, if d < 0 then 0x4A else 0x42,
                          word_of_int (py_int (py_mod \<bar>d\<bar> 31.875 * 8))]]\<rparr>, - d)"
    using m by (simp add: feed_backward_mm_out backward_out_def feed_cmds_def py_int_resto a')
  show ?thesis using a r f b redirects_le_1[of d] by blast
qed

section \<open>Label composition\<close>

lemma calc_separacion_3:
  "calc_separacion alto MARGIN 5 3 = Some ((of_int alto - 38) / 2)"
proof -
  have "(of_int (alto - 2 * 4 - 6 * 5) / of_int (3 - 1)) * (8::real) = of_int (4 * alto - 152)"
    by simp
  then show ?thesis
    by (simp add: calc_separacion_def MARGIN_def py_int_of_int del: of_int_diff of_int_mult)
qed

lemma calc_separacion_5:
  "calc_separacion alto MARGIN 5 5 = Some ((of_int alto - 38) / 4)"
proof -
  have "(of_int (alto - 2 * 4 - 6 * 5) / of_int (5 - 1)) * (8::real) = of_int (2 * alto - 76)"
    by simp
  then show ?thesis
    by (simp add: calc_separacion_def MARGIN_def py_int_of_int del: of_int_diff of_int_mult)
qed

lemma check_barcode_wrapped:
  "check_barcode ''CODE39'' (''*'' @ nro_osi @ ''*'') =
     (1 \<le> length nro_osi \<and> length nro_osi \<le> 253 \<and> list_all code39_char nro_osi)"
proof -
  have star: "\<not> code39_char CHR ''*''" by (simp add: code39_char_def)
  have "1 \<le> length nro_osi \<longleftrightarrow> 2 \<le> length (nro_osi @ ''*'')" by simp
  then show ?thesis
    using star by (auto simp add: check_barcode_def)
qed

lemma barcode_eq:
  "barcode p code bc 3 48 pos align_ct =
     (if check_barcode bc code
      then Some (p\<lparr>output_list := output_list p @ [Barcode code bc 3 48 pos align_ct]\<rparr>) else None)"
  "barcode p code bc 4 48 pos align_ct =
     (if check_barcode bc code
      then Some (p\<lparr>output_list := output_list p @ [Barcode code bc 4 48 pos align_ct]\<rparr>) else None)"
  by (simp_all add: barcode_def)

lemma preparar_eq:
  "preparar gap =
     Some (\<lparr>output_list = config_cmds @ backward_out (7.5 - of_int gap / 2)\<rparr>, 4 + of_int gap / 2)"
  by (simp add: preparar_def Np3511d_def reset_def set_lf_pitch_def set_double_width_and_height_def
      set_alignment_def set_max_print_speed_def set_print_density_def set_enhanced_print_on_def
      set_double_strike_on_def set_margins_def raw_def py_int_def bytes1_def
      feed_backward_mm_out CUTTER_OFFSET_def MARGIN_def POST_CUT_ADV_def config_cmds_def Let_def)

lemma bloques_ingreso_equipo_eq:
  "bloques_ingreso_equipo p hp alto nro_osi =
     (if check_barcode ''CODE39'' (''*'' @ nro_osi @ ''*'')
      then Some (p\<lparr>output_list := output_list p @ ingreso_equipo_out alto nro_osi\<rparr>,
                 hp + (of_int alto - 8))
      else None)"
  by (simp add: bloques_ingreso_equipo_def calc_separacion_3 feed_forward_mm_out text_out_def
      barcode_eq Let_def diff_divide_distrib ingreso_equipo_out_def)


lemma bloques_salida_parte_eq:
  "bloques_salida_parte p hp alto nro_osi nro_claim nro_fru hoy =
     (if check_barcode ''CODE39'' (''*'' @ nro_osi @ ''*'')
      then Some (p\<lparr>output_list := output_list p
                      @ salida_parte_out alto nro_osi nro_claim nro_fru hoy\<rparr>,
                 hp + (of_int alto - 8))
      else None)"
  by (simp add: bloques_salida_parte_def calc_separacion_3 feed_forward_mm_out text_out_def
      barcode_eq Let_def diff_divide_distrib salida_parte_out_def)

lemma for_linea_eq:
  "for_linea s lineas p hp =
     Some (p\<lparr>output_list := output_list p
                @ concat (map (\<lambda>linea. Text (if length linea > 0 then linea @ [CHR 0x0A]
                                               else '' '' @ [CHR 0x0A]) # forward_out s) lineas)\<rparr>,
           hp + of_nat (length lineas) * (6 + s))"
proof (induction lineas arbitrary: p hp)
  case Nil
  then show ?case by simp
next
  case (Cons linea lineas)
  show ?case
    by (simp add: Cons.IH feed_forward_mm_out text_out_def Let_def algebra_simps)
qed

lemma bloques_libre_eq:
  "bloques_libre p hp alto ui =
     Some (p\<lparr>output_list := output_list p
                @ libre_out alto
                    [take 20 (entrada_osi ui), take 20 (entrada_claim ui), take 20 (entrada_fru ui),
                     take 20 (entrada_4ta_linea ui), take 20 (entrada_5ta_linea ui)]\<rparr>,
           hp + 5 * (6 + (of_int alto - 38) / 4))"
  by (simp add: bloques_libre_def calc_separacion_5 for_linea_eq Let_def libre_out_def)

lemma etiqueta_ingreso_equipo_eq:
  "etiqueta_ingreso_equipo p hp alto gap nro_osi =
     (if check_barcode ''CODE39'' (''*'' @ nro_osi @ ''*'')
      then Some (p\<lparr>output_list := output_list p @ ingreso_equipo_out alto nro_osi
                      @ forward_out (of_int alto + of_int gap - (hp + (of_int alto - 8))
                                      + CUTTER_OFFSET + AJUSTE)\<rparr>,
                 of_int alto + of_int gap + CUTTER_OFFSET + AJUSTE)
      else None)"
  by (simp add: etiqueta_ingreso_equipo_def bloques_ingreso_equipo_eq feed_forward_mm_out Let_def)


lemma etiqueta_salida_parte_eq:
  "etiqueta_salida_parte p hp alto gap nro_osi nro_claim nro_fru hoy =
     (if check_barcode ''CODE39'' (''*'' @ nro_osi @ ''*'')
      then Some (p\<lparr>output_list := output_list p
                      @ salida_parte_out alto nro_osi nro_claim nro_fru hoy
                      @ forward_out (of_int alto + of_int gap - (hp + (of_int alto - 8))
                                      + CUTTER_OFFSET)\<rparr>,
                 of_int alto + of_int gap + CUTTER_OFFSET)
      else None)"
  by (simp add: etiqueta_salida_parte_def bloques_salida_parte_eq feed_forward_mm_out Let_def)

lemma etiqueta_libre_eq:
  "etiqueta_libre p hp alto gap ui =
     Some (p\<lparr>output_list := output_list p
                @ libre_out alto
                    [take 20 (entrada_osi ui), take 20 (entrada_claim ui), take 20 (entrada_fru ui),
                     take 20 (entrada_4ta_linea ui), take 20 (entrada_5ta_linea ui)]
                @ forward_out (of_int alto + of_int gap - (hp + 5 * (6 + (of_int alto - 38) / 4))
                                + CUTTER_OFFSET)\<rparr>,
           of_int alto + of_int gap + CUTTER_OFFSET)"
  by (simp add: etiqueta_libre_def bloques_libre_eq feed_forward_mm_out Let_def)

lemma cortar_e_imprimir_eq:
  "cortar_e_imprimir w p =
     w\<lparr>sent := sent w @ [output_list p @ [Raw [ESC, 0x69]]],
       dropped := dropped w @ [output_list p @ [Raw [ESC, 0x69]]]\<rparr>"
  by (simp add: cortar_e_imprimir_def full_cut_def raw_def print_buffer_def close_dummy_def Let_def)

lemma button_print_callback_abort:
  assumes "optionmenu_label_type ui = ''Ingreso Equipo'' \<or> optionmenu_label_type ui = ''Ingreso Golden Unit''"
    and "length (entrada_osi ui) \<noteq> 6"
  shows "button_print_callback ui hoy w =
           Some (w\<lparr>dropped := dropped w
                      @ [config_cmds @ backward_out (7.5 - of_int (optionmenu_gap_size ui) / 2)]\<rparr>)"
  using assms by (auto simp add: button_print_callback_def preparar_eq close_dummy_def)

lemma button_print_callback_ingreso_equipo:
  assumes "optionmenu_label_type ui = ''Ingreso Equipo''" and "length (entrada_osi ui) = 6"
  shows "button_print_callback ui hoy w =
     (if check_barcode ''CODE39'' (''*'' @ entrada_osi ui @ ''*'')
      then Some (cortar_e_imprimir w
        \<lparr>output_list = config_cmds @ backward_out (7.5 - of_int (optionmenu_gap_size ui) / 2)
          @ ingreso_equipo_out (optionmenu_label_size ui) (entrada_osi ui)
          @ forward_out (of_int (optionmenu_label_size ui) + of_int (optionmenu_gap_size ui)
                          - (4 + of_int (optionmenu_gap_size ui) / 2
                               + (of_int (optionmenu_label_size ui) - 8))
                          + CUTTER_OFFSET + AJUSTE)\<rparr>)
      else None)"
  using assms
  by (simp add: button_print_callback_def preparar_eq etiqueta_ingreso_equipo_eq)


lemma button_print_callback_salida_parte:
  assumes "optionmenu_label_type ui = ''Salida Parte''"
  shows "button_print_callback ui hoy w =
     (if check_barcode ''CODE39'' (''*'' @ entrada_osi ui @ ''*'')
      then Some (cortar_e_imprimir w
        \<lparr>output_list = config_cmds @ backward_out (7.5 - of_int (optionmenu_gap_size ui) / 2)
          @ salida_parte_out (optionmenu_label_size ui) (entrada_osi ui)
              (take 14 (entrada_claim ui)) (take 14 (entrada_fru ui)) hoy
          @ forward_out (of_int (optionmenu_label_size ui) + of_int (optionmenu_gap_size ui)
                          - (4 + of_int (optionmenu_gap_size ui) / 2
                               + (of_int (optionmenu_label_size ui) - 8))
                          + CUTTER_OFFSET)\<rparr>)
      else None)"
  using assms
  by (simp add: button_print_callback_def preparar_eq etiqueta_salida_parte_eq Let_def)

lemma button_print_callback_libre:
  assumes "optionmenu_label_type ui = ''Libre''"
  shows "button_print_callback ui hoy w =
     Some (cortar_e_imprimir w
        \<lparr>output_list = config_cmds @ backward_out (7.5 - of_int (optionmenu_gap_size ui) / 2)
          @ libre_out (optionmenu_label_size ui)
              [take 20 (entrada_osi ui), take 20 (entrada_claim ui), take 20 (entrada_fru ui),
               take 20 (entrada_4ta_linea ui), take 20 (entrada_5ta_linea ui)]
          @ forward_out (of_int (optionmenu_label_size ui) + of_int (optionmenu_gap_size ui)
                          - (4 + of_int (optionmenu_gap_size ui) / 2
                               + 5 * (6 + (of_int (optionmenu_label_size ui) - 38) / 4))
                          + CUTTER_OFFSET)\<rparr>)"
  using assms
  by (simp add: button_print_callback_def preparar_eq etiqueta_libre_eq Let_def)


lemma np3511d_update_eq: "p\<lparr>output_list := xs\<rparr> = \<lparr>output_list = xs\<rparr>"
  by (cases p) simp

lemma excel_fila_eq:
  assumes "(ex_i st + 1) mod 5 \<noteq> 0"
  shows "excel_fila alto gap reloj (x1, x2, x3) st =
     (if check_barcode ''CODE39'' (''*'' @ x1 @ ''*'')
      then Some \<lparr>ex_p = \<lparr>output_list = output_list (ex_p st)
                      @ salida_parte_out alto x1 x2 x3 (reloj (ex_i st + 1))
                      @ forward_out (of_int alto + of_int gap - (ex_head_pos st + (of_int alto - 8))
                                      + CUTTER_OFFSET)
                      @ [Raw [ESC, 0x69]]\<rparr>,
           ex_head_pos = of_int alto + of_int gap + CUTTER_OFFSET,
           ex_i = ex_i st + 1,
           ex_w = (ex_w st)\<lparr>sent := sent (ex_w st)
                     @ [output_list (ex_p st)
                        @ salida_parte_out alto x1 x2 x3 (reloj (ex_i st + 1))
                        @ forward_out (of_int alto + of_int gap - (ex_head_pos st + (of_int alto - 8))
                                        + CUTTER_OFFSET)
                        @ [Raw [ESC, 0x69]]]\<rparr>\<rparr>
      else None)"
  using assms
  by (simp add: excel_fila_def etiqueta_salida_parte_eq Let_def
      full_cut_def raw_def print_buffer_def np3511d_update_eq)

lemma filter_feed_cmds [simp]:
  "filter is_text (feed_cmds c d) = []" "filter is_barcode (feed_cmds c d) = []"
  by (simp_all add: feed_cmds_def)

lemma filter_forward_out [simp]:
  "filter is_text (forward_out d) = []" "filter is_barcode (forward_out d) = []"
  by (simp_all add: forward_out_def)

lemma filter_backward_out [simp]:
  "filter is_text (backward_out d) = []" "filter is_barcode (backward_out d) = []"
  by (simp_all add: backward_out_def)

lemma filter_config_cmds [simp]:
  "filter is_text config_cmds = []" "filter is_barcode config_cmds = []"
  by (simp_all add: config_cmds_def)

lemma feed_cmds_small:
  assumes "0 \<le> d" "d < 255 / 8"
  shows "feed_cmds c d = [Raw [ESC, c, word_of_int \<lfloor>d * 8\<rfloor>]]"
proof -
  have "0 \<le> d * 8 / 255" "d * 8 / 255 < 1" using assms by simp_all
  then have "\<lfloor>d * 8 / 255\<rfloor> = 0" by (simp add: floor_eq_iff)
  then show ?thesis using assms by (simp add: feed_cmds_def py_mod_small)
qed

lemma forward_out_small:
  assumes "0 \<le> d" "d < 255 / 8"
  shows "forward_out d = [Raw [ESC, 0x4A, word_of_int \<lfloor>d * 8\<rfloor>]]"
  using assms by (simp add: forward_out_def feed_cmds_small)

lemma backward_out_small:
  assumes "0 \<le> d" "d < 255 / 8"
  shows "backward_out d = [Raw [ESC, 0x42, word_of_int \<lfloor>d * 8\<rfloor>]]"
  using assms by (simp add: backward_out_def feed_cmds_small)

section \<open>Jobs\<close>



text \<open>
  Claim C5, as amended. An "Ingreso Equipo" job with a 6-character identifier of CODE39
  characters hands one buffer to the sink: the configuration and the alignment feed, then a
  text line and a barcode, the spacing feed, a text line and a barcode, the spacing feed, a
  text line alone, the final feed and the cut. So it holds exactly three text emissions,
  each showing the identifier twice (plain after " OSI " and prefixed by \<open>*\<close>), and exactly
  two barcode emissions, each CODE39 of the identifier wrapped in \<open>*...*\<close>, width 3, height
  48, no companion text. With any other 6-character identifier the library rejects the
  barcode and the job raises.
\<close>

theorem ingreso_equipo_three_texts_two_barcodes:
  assumes "optionmenu_label_type ui = ''Ingreso Equipo''" and "length (entrada_osi ui) = 6"
  shows "\<exists>buffer.
           buffer =
             config_cmds @ backward_out (7.5 - of_int (optionmenu_gap_size ui) / 2)
             @ [Text ('' OSI '' @ entrada_osi ui @ [CHR 0x09] @ ''   *'' @ entrada_osi ui),
                Barcode (''*'' @ entrada_osi ui @ ''*'') ''CODE39'' 3 48 ''OFF'' False]
             @ forward_out ((of_int (optionmenu_label_size ui) - 38) / 2)
             @ [Text ('' OSI '' @ entrada_osi ui @ [CHR 0x09] @ ''   *'' @ entrada_osi ui),
                Barcode (''*'' @ entrada_osi ui @ ''*'') ''CODE39'' 3 48 ''OFF'' False]
             @ forward_out ((of_int (optionmenu_label_size ui) - 38) / 2)
             @ [Text ('' OSI '' @ entrada_osi ui @ [CHR 0x09] @ ''   *'' @ entrada_osi ui)]
             @ forward_out (of_int (optionmenu_gap_size ui) / 2 + 19.5)
             @ [Raw [ESC, 0x69]]
         \<and> button_print_callback ui hoy w =
             (if list_all code39_char (entrada_osi ui)
              then Some (w\<lparr>sent := sent w @ [buffer], dropped := dropped w @ [buffer]\<rparr>)
              else None)
         \<and> filter is_text buffer =
             replicate 3 (Text ('' OSI '' @ entrada_osi ui @ [CHR 0x09] @ ''   *'' @ entrada_osi ui))
         \<and> filter is_barcode buffer =
             replicate 2 (Barcode (''*'' @ entrada_osi ui @ ''*'') ''CODE39'' 3 48 ''OFF'' False)"
proof -
  have ok: "check_barcode ''CODE39'' (''*'' @ entrada_osi ui @ ''*'') = list_all code39_char (entrada_osi ui)"
    using assms(2) check_barcode_wrapped[of "entrada_osi ui"] by simp
  have d: "of_int (optionmenu_label_size ui) + of_int (optionmenu_gap_size ui)
             - (4 + of_int (optionmenu_gap_size ui) / 2 + (of_int (optionmenu_label_size ui) - 8))
             + CUTTER_OFFSET + AJUSTE
           = of_int (optionmenu_gap_size ui) / 2 + 19.5"
    by (simp add: CUTTER_OFFSET_def AJUSTE_def)
  show ?thesis
    unfolding button_print_callback_ingreso_equipo[OF assms] cortar_e_imprimir_eq ok d
    by (intro exI conjI, rule refl)
       (simp_all add: numeral_3_eq_3 numeral_2_eq_2 ingreso_equipo_out_def)
qed

text \<open>
  The theorem of C5 for the identifier 123456 on a 50 mm label with a 5 mm gap.
\<close>

theorem ingreso_equipo_three_texts_two_barcodes_witness:
  "\<exists>buffer. button_print_callback
        \<lparr>optionmenu_label_type = ''Ingreso Equipo'', optionmenu_label_size = 50,
         optionmenu_gap_size = 5, entrada_osi = ''123456'', entrada_claim = [],
         entrada_fru = [], entrada_4ta_linea = [], entrada_5ta_linea = []\<rparr>
        ''01/01/2025'' \<lparr>sent = [], dropped = []\<rparr> = Some \<lparr>sent = [buffer], dropped = [buffer]\<rparr>
     \<and> filter is_text buffer = replicate 3 (Text ('' OSI 123456'' @ [CHR 0x09] @ ''   *123456''))
     \<and> filter is_barcode buffer = replicate 2 (Barcode ''*123456*'' ''CODE39'' 3 48 ''OFF'' False)"
  using ingreso_equipo_three_texts_two_barcodes[of
        "\<lparr>optionmenu_label_type = ''Ingreso Equipo'', optionmenu_label_size = 50,
         optionmenu_gap_size = 5, entrada_osi = ''123456'', entrada_claim = [],
         entrada_fru = [], entrada_4ta_linea = [], entrada_5ta_linea = []\<rparr>"
        "''01/01/2025''" "\<lparr>sent = [], dropped = []\<rparr>"]
  by (simp add: code39_char_def)

text \<open>
  Claim C5 as stated fails: for the identifier 123456 the buffer holds three text emissions
  but two barcode emissions, not three.
\<close>

theorem ingreso_equipo_third_block_has_no_barcode:
  "map_option (\<lambda>w. map (\<lambda>buffer. (length (filter is_text buffer), length (filter is_barcode buffer))) (sent w))
     (button_print_callback
        \<lparr>optionmenu_label_type = ''Ingreso Equipo'', optionmenu_label_size = 50,
         optionmenu_gap_size = 5, entrada_osi = ''123456'', entrada_claim = [],
         entrada_fru = [], entrada_4ta_linea = [], entrada_5ta_linea = []\<rparr>
        ''01/01/2025'' \<lparr>sent = [], dropped = []\<rparr>)
   = Some [(3, 2)]"
  by (simp add: button_print_callback_ingreso_equipo cortar_e_imprimir_eq ingreso_equipo_out_def
      check_barcode_def code39_char_def)

text \<open>
  Claim C7, as amended. For "Ingreso Equipo" and "Ingreso Golden Unit", when the identifier
  is not exactly 6 characters long the job returns after the configuration commands and the
  backward alignment feed have entered the buffer, and before any text or barcode does; the
  buffered chunks are dropped with the dummy printer and nothing is handed to the sink.
\<close>

theorem intake_wrong_length_drops_buffer:
  assumes "optionmenu_label_type ui = ''Ingreso Equipo'' \<or> optionmenu_label_type ui = ''Ingreso Golden Unit''"
    and "length (entrada_osi ui) \<noteq> 6"
  shows "\<exists>p head_pos w'. preparar (optionmenu_gap_size ui) = Some (p, head_pos)
         \<and> output_list p \<noteq> []
         \<and> filter is_text (output_list p) = [] \<and> filter is_barcode (output_list p) = []
         \<and> button_print_callback ui hoy w = Some w'
         \<and> sent w' = sent w
         \<and> dropped w' = dropped w @ [output_list p]"
  unfolding button_print_callback_abort[OF assms] preparar_eq
  by (simp add: config_cmds_def)

text \<open>
  The theorem of C7 for a "Ingreso Golden Unit" job with the 5-character identifier 12345.
\<close>

theorem intake_wrong_length_drops_buffer_witness:
  "\<exists>p head_pos w'. preparar 5 = Some (p, head_pos)
         \<and> output_list p \<noteq> []
         \<and> filter is_text (output_list p) = [] \<and> filter is_barcode (output_list p) = []
         \<and> button_print_callback
              \<lparr>optionmenu_label_type = ''Ingreso Golden Unit'', optionmenu_label_size = 50,
               optionmenu_gap_size = 5, entrada_osi = ''12345'', entrada_claim = [],
               entrada_fru = [], entrada_4ta_linea = [], entrada_5ta_linea = []\<rparr>
              ''01/01/2025'' \<lparr>sent = [], dropped = []\<rparr> = Some w'
         \<and> sent w' = []
         \<and> dropped w' = [output_list p]"
  using intake_wrong_length_drops_buffer[of
        "\<lparr>optionmenu_label_type = ''Ingreso Golden Unit'', optionmenu_label_size = 50,
               optionmenu_gap_size = 5, entrada_osi = ''12345'', entrada_claim = [],
               entrada_fru = [], entrada_4ta_linea = [], entrada_5ta_linea = []\<rparr>"
        "''01/01/2025''" "\<lparr>sent = [], dropped = []\<rparr>"]
  by simp

text \<open>
  Claim C7 as stated fails in its first part: when the "Ingreso Equipo" job with the
  5-character identifier 12345 returns, ten commands have already entered the buffer.
\<close>

theorem intake_abort_after_ten_commands:
  "button_print_callback
      \<lparr>optionmenu_label_type = ''Ingreso Equipo'', optionmenu_label_size = 50,
       optionmenu_gap_size = 5, entrada_osi = ''12345'', entrada_claim = [],
       entrada_fru = [], entrada_4ta_linea = [], entrada_5ta_linea = []\<rparr>
      ''01/01/2025'' \<lparr>sent = [], dropped = []\<rparr>
   = Some \<lparr>sent = [],
           dropped = [ [Raw [0x1b, 0x40], Raw [0x1b, 0x33, 0], Raw [0x1b, 0x21, 0x38],
                       Raw [0x1b, 0x61, 0], Raw [0x1d, 0x53, 4], Raw [0x1d, 0x7E, 130],
                       Raw [0x1b, 0x45, 1], Raw [0x1b, 0x47, 1], Raw [0x1d, 0x57, 6, 66],
                       Raw [0x1b, 0x42, 40]] ]\<rparr>"
  by (simp add: button_print_callback_abort config_cmds_def backward_out_def feed_cmds_small
      ESC_def GS_def)



text \<open>
  Claim C9, as amended. A job of \<^verbatim>\<open>button_print_callback\<close> whose label type is not
  "Salida Parte" does not depend on the date read from the clock: with the same form inputs
  it hands the same buffers to the sink. (A "Salida Parte" label prints the date; its buffer
  is a function of the inputs and that date.)
\<close>

theorem job_without_date_line_is_reproducible:
  assumes "optionmenu_label_type ui \<noteq> ''Salida Parte''"
  shows "button_print_callback ui hoy w = button_print_callback ui hoy' w"
  using assms by (simp add: button_print_callback_def preparar_eq)

text \<open>
  The theorem of C9 for a "Libre" job run on two different days.
\<close>

theorem job_without_date_line_is_reproducible_witness:
  "''Libre'' \<noteq> ''Salida Parte''
   \<and> button_print_callback
        \<lparr>optionmenu_label_type = ''Libre'', optionmenu_label_size = 50,
         optionmenu_gap_size = 5, entrada_osi = ''123456'', entrada_claim = [],
         entrada_fru = [], entrada_4ta_linea = [], entrada_5ta_linea = []\<rparr>
        ''01/01/2025'' \<lparr>sent = [], dropped = []\<rparr>
     = button_print_callback
        \<lparr>optionmenu_label_type = ''Libre'', optionmenu_label_size = 50,
         optionmenu_gap_size = 5, entrada_osi = ''123456'', entrada_claim = [],
         entrada_fru = [], entrada_4ta_linea = [], entrada_5ta_linea = []\<rparr>
        ''02/01/2025'' \<lparr>sent = [], dropped = []\<rparr>"
  using job_without_date_line_is_reproducible[of
        "\<lparr>optionmenu_label_type = ''Libre'', optionmenu_label_size = 50,
         optionmenu_gap_size = 5, entrada_osi = ''123456'', entrada_claim = [],
         entrada_fru = [], entrada_4ta_linea = [], entrada_5ta_linea = []\<rparr>"
        "''01/01/2025''" "\<lparr>sent = [], dropped = []\<rparr>" "''02/01/2025''"]
  by simp

text \<open>
  Claim C9 as stated fails: the same "Salida Parte" job run on two different days hands
  two different buffers to the sink.
\<close>

theorem salida_parte_buffer_depends_on_date:
  "button_print_callback
        \<lparr>optionmenu_label_type = ''Salida Parte'', optionmenu_label_size = 50,
         optionmenu_gap_size = 5, entrada_osi = ''123456'', entrada_claim = ''C1'',
         entrada_fru = ''F1'', entrada_4ta_linea = [], entrada_5ta_linea = []\<rparr>
        ''01/01/2025'' \<lparr>sent = [], dropped = []\<rparr>
   \<noteq> button_print_callback
        \<lparr>optionmenu_label_type = ''Salida Parte'', optionmenu_label_size = 50,
         optionmenu_gap_size = 5, entrada_osi = ''123456'', entrada_claim = ''C1'',
         entrada_fru = ''F1'', entrada_4ta_linea = [], entrada_5ta_linea = []\<rparr>
        ''02/01/2025'' \<lparr>sent = [], dropped = []\<rparr>"
  by (simp add: button_print_callback_salida_parte cortar_e_imprimir_eq salida_parte_out_def
      check_barcode_def code39_char_def)

text \<open>
  Claim C3 against the code. In \<^verbatim>\<open>print_excel\<close>, on 50 mm labels with a 5 mm gap, the head
  position is \<open>MARGIN + gap / 2 = 6.5\<close> before the first row and 64.5 after it (when the
  library accepts the row's barcode); the second row starts from the state the first row
  leaves, so its first block is composed with the head position 64.5.
\<close>

theorem print_excel_second_row_head_pos:
  "(do { (p, head_pos) \<leftarrow> preparar 5;
         st \<leftarrow> excel_fila 50 5 reloj fila1
                 \<lparr>ex_p = p, ex_head_pos = head_pos, ex_i = 0, ex_w = w\<rparr>;
         Some (head_pos, ex_head_pos st) }) =
     (if check_barcode ''CODE39'' (''*'' @ fst fila1 @ ''*'') then Some (13 / 2, 129 / 2) else None)
   \<and> print_excel 50 5 reloj [fila1, fila2] w =
       do { (p, head_pos) \<leftarrow> preparar 5;
            st \<leftarrow> excel_fila 50 5 reloj fila1
                    \<lparr>ex_p = p, ex_head_pos = head_pos, ex_i = 0, ex_w = w\<rparr>;
            st \<leftarrow> excel_fila 50 5 reloj fila2 st;
            Some (close_dummy (ex_w st) (ex_p st)) }"
proof -
  obtain x1 x2 x3 where f1: "fila1 = (x1, x2, x3)" by (cases fila1) auto
  let ?p0 = "\<lparr>output_list = config_cmds @ backward_out (7.5 - of_int 5 / 2)\<rparr>"
  let ?st0 = "\<lparr>ex_p = ?p0, ex_head_pos = 4 + of_int 5 / 2, ex_i = 0, ex_w = w\<rparr>"
  have r1: "map_option ex_head_pos (excel_fila 50 5 reloj (x1, x2, x3) ?st0) =
              (if check_barcode ''CODE39'' (''*'' @ x1 @ ''*'')
               then Some (50 + 5 + CUTTER_OFFSET) else None)"
    by (subst excel_fila_eq) simp_all
  have a: "(do { (p, head_pos) \<leftarrow> preparar 5;
         st \<leftarrow> excel_fila 50 5 reloj fila1
                 \<lparr>ex_p = p, ex_head_pos = head_pos, ex_i = 0, ex_w = w\<rparr>;
         Some (head_pos, ex_head_pos st) }) =
     (if check_barcode ''CODE39'' (''*'' @ fst fila1 @ ''*'') then Some (13 / 2, 129 / 2) else None)"
    using r1 by (auto simp add: preparar_eq f1 CUTTER_OFFSET_def split: if_splits)
  have b: "print_excel 50 5 reloj [fila1, fila2] w =
       do { (p, head_pos) \<leftarrow> preparar 5;
            st \<leftarrow> excel_fila 50 5 reloj fila1
                    \<lparr>ex_p = p, ex_head_pos = head_pos, ex_i = 0, ex_w = w\<rparr>;
            st \<leftarrow> excel_fila 50 5 reloj fila2 st;
            Some (close_dummy (ex_w st) (ex_p st)) }"
    by (simp add: print_excel_def preparar_eq)
  from a b show ?thesis by blast
qed

text \<open>
  Claim C4 against the code. \<^verbatim>\<open>print_excel\<close> hands \<^verbatim>\<open>p.output\<close> to the sink after every row and
  never clears it inside the loop: for every two-row table whose barcodes the library
  accepts, the first hand-over \<open>b1\<close> (the configuration and the first label) is not empty
  and is sent again as the beginning of the second hand-over.
\<close>

theorem print_excel_resends_earlier_rows:
  "\<exists>b1 b2. b1 \<noteq> []
     \<and> print_excel alto gap reloj [fila1, fila2] w =
         (if check_barcode ''CODE39'' (''*'' @ fst fila1 @ ''*'')
             \<and> check_barcode ''CODE39'' (''*'' @ fst fila2 @ ''*'')
          then Some (w\<lparr>sent := sent w @ [b1, b1 @ b2], dropped := dropped w @ [b1 @ b2]\<rparr>)
          else None)"
proof -
  obtain x1 x2 x3 where f1: "fila1 = (x1, x2, x3)" by (cases fila1) auto
  obtain y1 y2 y3 where f2: "fila2 = (y1, y2, y3)" by (cases fila2) auto
  let ?p0 = "\<lparr>output_list = config_cmds @ backward_out (7.5 - of_int gap / 2)\<rparr>"
  let ?st0 = "\<lparr>ex_p = ?p0, ex_head_pos = 4 + of_int gap / 2, ex_i = 0, ex_w = w\<rparr>"
  let ?b1 = "config_cmds @ backward_out (7.5 - of_int gap / 2)
             @ salida_parte_out alto x1 x2 x3 (reloj 1)
             @ forward_out (of_int alto + of_int gap - (4 + of_int gap / 2 + (of_int alto - 8))
                             + CUTTER_OFFSET)
             @ [Raw [ESC, 0x69]]"
  let ?st1 = "\<lparr>ex_p = \<lparr>output_list = ?b1\<rparr>,
               ex_head_pos = of_int alto + of_int gap + CUTTER_OFFSET,
               ex_i = 1, ex_w = w\<lparr>sent := sent w @ [?b1]\<rparr>\<rparr>"
  let ?b2 = "salida_parte_out alto y1 y2 y3 (reloj 2)
             @ forward_out (of_int alto + of_int gap
                             - (of_int alto + of_int gap + CUTTER_OFFSET + (of_int alto - 8))
                             + CUTTER_OFFSET)
             @ [Raw [ESC, 0x69]]"
  let ?st2 = "\<lparr>ex_p = \<lparr>output_list = ?b1 @ ?b2\<rparr>,
               ex_head_pos = of_int alto + of_int gap + CUTTER_OFFSET,
               ex_i = 2, ex_w = w\<lparr>sent := sent w @ [?b1, ?b1 @ ?b2]\<rparr>\<rparr>"
  let ?ok1 = "check_barcode ''CODE39'' (''*'' @ x1 @ ''*'')"
  let ?ok2 = "check_barcode ''CODE39'' (''*'' @ y1 @ ''*'')"
  have r1: "excel_fila alto gap reloj (x1, x2, x3) ?st0 = (if ?ok1 then Some ?st1 else None)"
    by (subst excel_fila_eq) simp_all
  have r2: "excel_fila alto gap reloj (y1, y2, y3) ?st1 = (if ?ok2 then Some ?st2 else None)"
    by (subst excel_fila_eq) simp_all
  have fin: "close_dummy (ex_w ?st2) (ex_p ?st2) =
               w\<lparr>sent := sent w @ [?b1, ?b1 @ ?b2], dropped := dropped w @ [?b1 @ ?b2]\<rparr>"
    by (simp add: close_dummy_def)
  have pe: "print_excel alto gap reloj [fila1, fila2] w =
              Option.bind (excel_fila alto gap reloj (x1, x2, x3) ?st0)
                (\<lambda>st. Option.bind (excel_fila alto gap reloj (y1, y2, y3) st)
                   (\<lambda>st. Some (close_dummy (ex_w st) (ex_p st))))"
    unfolding print_excel_def preparar_eq f1 f2
    by (simp only: bind.simps prod.case for_value.simps bind_rzero Option.bind_assoc)
  have "print_excel alto gap reloj [fila1, fila2] w =
         (if ?ok1 \<and> ?ok2
          then Some (w\<lparr>sent := sent w @ [?b1, ?b1 @ ?b2], dropped := dropped w @ [?b1 @ ?b2]\<rparr>)
          else None)"
  proof (cases ?ok1)
    case False
    then show ?thesis unfolding pe r1 by (simp only: if_False bind.simps simp_thms)
  next
    case o1: True
    show ?thesis
    proof (cases ?ok2)
      case False
      then show ?thesis unfolding pe r1 using o1
        by (simp only: if_True if_False bind.simps r2 simp_thms)
    next
      case o2: True
      show ?thesis unfolding pe r1 using o1 o2
        by (simp only: if_True bind.simps r2 fin simp_thms)
    qed
  qed
  then have eq: "print_excel alto gap reloj [fila1, fila2] w =
         (if check_barcode ''CODE39'' (''*'' @ fst fila1 @ ''*'')
             \<and> check_barcode ''CODE39'' (''*'' @ fst fila2 @ ''*'')
          then Some (w\<lparr>sent := sent w @ [?b1, ?b1 @ ?b2], dropped := dropped w @ [?b1 @ ?b2]\<rparr>)
          else None)"
    unfolding f1 f2 by (simp only: fst_conv)
  have ne: "?b1 \<noteq> []" by (simp add: config_cmds_def)
  show ?thesis
  proof (intro exI conjI)
    show "?b1 \<noteq> []" by (rule ne)
    show "print_excel alto gap reloj [fila1, fila2] w =
         (if check_barcode ''CODE39'' (''*'' @ fst fila1 @ ''*'')
             \<and> check_barcode ''CODE39'' (''*'' @ fst fila2 @ ''*'')
          then Some (w\<lparr>sent := sent w @ [?b1, ?b1 @ ?b2], dropped := dropped w @ [?b1 @ ?b2]\<rparr>)
          else None)"
      by (rule eq)
  qed
qed

text \<open>
  Claim C6 against the code. A "Libre" job with the lines a, b, c, d, e on a 50 mm label
  with a 5 mm gap: the spacing is 3 mm (24 steps), and the buffer handed to the sink holds
  a spacing feed after each of the five lines, the fifth included, followed by the final
  feed of 13 mm (104 steps) and the cut. The claim allows four spacing feeds.
\<close>

theorem libre_feeds_after_fifth_line:
  "button_print_callback
      \<lparr>optionmenu_label_type = ''Libre'', optionmenu_label_size = 50,
       optionmenu_gap_size = 5, entrada_osi = ''a'', entrada_claim = ''b'',
       entrada_fru = ''c'', entrada_4ta_linea = ''d'', entrada_5ta_linea = ''e''\<rparr>
      ''01/01/2025'' \<lparr>sent = [], dropped = []\<rparr>
   = Some \<lparr>sent = [ [Raw [0x1b, 0x40], Raw [0x1b, 0x33, 0], Raw [0x1b, 0x21, 0x38],
                     Raw [0x1b, 0x61, 0], Raw [0x1d, 0x53, 4], Raw [0x1d, 0x7E, 130],
                     Raw [0x1b, 0x45, 1], Raw [0x1b, 0x47, 1], Raw [0x1d, 0x57, 6, 66],
                     Raw [0x1b, 0x42, 40],
                     Text (''a'' @ [CHR 0x0A]), Raw [0x1b, 0x4A, 24],
                     Text (''b'' @ [CHR 0x0A]), Raw [0x1b, 0x4A, 24],
                     Text (''c'' @ [CHR 0x0A]), Raw [0x1b, 0x4A, 24],
                     Text (''d'' @ [CHR 0x0A]), Raw [0x1b, 0x4A, 24],
                     Text (''e'' @ [CHR 0x0A]), Raw [0x1b, 0x4A, 24],
                     Raw [0x1b, 0x4A, 104], Raw [0x1b, 0x69]] ],
           dropped = [ [Raw [0x1b, 0x40], Raw [0x1b, 0x33, 0], Raw [0x1b, 0x21, 0x38],
                     Raw [0x1b, 0x61, 0], Raw [0x1d, 0x53, 4], Raw [0x1d, 0x7E, 130],
                     Raw [0x1b, 0x45, 1], Raw [0x1b, 0x47, 1], Raw [0x1d, 0x57, 6, 66],
                     Raw [0x1b, 0x42, 40],
                     Text (''a'' @ [CHR 0x0A]), Raw [0x1b, 0x4A, 24],
                     Text (''b'' @ [CHR 0x0A]), Raw [0x1b, 0x4A, 24],
                     Text (''c'' @ [CHR 0x0A]), Raw [0x1b, 0x4A, 24],
                     Text (''d'' @ [CHR 0x0A]), Raw [0x1b, 0x4A, 24],
                     Text (''e'' @ [CHR 0x0A]), Raw [0x1b, 0x4A, 24],
                     Raw [0x1b, 0x4A, 104], Raw [0x1b, 0x69]] ]\<rparr>"
proof -
  have b: "backward_out 5 = [Raw [ESC, 0x42, 40]]"
    using backward_out_small[of 5] by simp
  have s: "forward_out 3 = [Raw [ESC, 0x4A, 24]]"
    using forward_out_small[of 3] by simp
  have f: "forward_out 13 = [Raw [ESC, 0x4A, 104]]"
    using forward_out_small[of 13] by simp
  show ?thesis
    by (simp add: button_print_callback_libre cortar_e_imprimir_eq config_cmds_def libre_out_def
        CUTTER_OFFSET_def b s f ESC_def GS_def)
qed

end
